theory Spec2Isabelle
  imports Main
begin

section \<open>CachedTensor: a tensor wrapper that carries named component tensors\<close>

text \<open>
  The development embeds \<^verbatim>\<open>torch/nested/_internal/cached_tensor.py\<close>: the class
  \<^verbatim>\<open>CachedTensor\<close>, the module-level registry \<^verbatim>\<open>_func_registry\<close>, the context
  manager \<^verbatim>\<open>set_func_registry\<close> and the decorator \<^verbatim>\<open>register_cached_tensor_func\<close>.
  Exceptions are values of a sum type (\<open>Inl\<close> the exception), Python dictionaries whose
  order is observable are association lists with distinct keys, and the module's global
  variable is a field of an explicit module state.
\<close>

subsection \<open>Exceptions and dictionaries\<close>

datatype exn =
    KeyError string
  | AttributeError string
  | HostError string

text \<open>
  A \<^verbatim>\<open>Dict[str, ...]\<close> keeps its keys in insertion order and has no duplicate key:
  it is an association list \<open>d\<close> with \<open>distinct (map fst d)\<close>. \<^verbatim>\<open>d[k]\<close> raises
  \<^verbatim>\<open>KeyError(k)\<close> when the key is absent.
\<close>

type_synonym 'v dict = "(string \<times> 'v) list"

definition keys :: "'v dict \<Rightarrow> string list" where
  "keys d = map fst d"

definition contains :: "'v dict \<Rightarrow> string \<Rightarrow> bool" where
  "contains d k = (map_of d k \<noteq> None)"

definition getitem :: "'v dict \<Rightarrow> string \<Rightarrow> exn + 'v" where
  "getitem d k = (case map_of d k of None \<Rightarrow> Inl (KeyError k) | Some v \<Rightarrow> Inr v)"

subsection \<open>Tensors and the wrapper subclass\<close>

text \<open>
  The attributes of a \<^verbatim>\<open>torch.Tensor\<close> that the class reads: \<^verbatim>\<open>shape\<close>,
  \<^verbatim>\<open>stride()\<close>, \<^verbatim>\<open>storage_offset()\<close>, \<^verbatim>\<open>device\<close>, \<^verbatim>\<open>layout\<close>,
  \<^verbatim>\<open>requires_grad\<close> and \<^verbatim>\<open>dtype\<close>. An ordinary tensor also has its data, here an
  opaque identity. \<^verbatim>\<open>CachedTensor\<close> is a subclass of \<^verbatim>\<open>torch.Tensor\<close>: its record
  extends the same attributes with the instance attributes that \<^verbatim>\<open>__init__\<close> assigns.
\<close>

record tensor_attrs =
  shape :: "int list"
  strides :: "int list"
  storage_offset :: int
  device :: string
  layout :: string
  requires_grad :: bool
  dtype :: string

record tensor = tensor_attrs +
  data :: nat

record cached_tensor = tensor_attrs +
  source_field :: string
  metadata :: "tensor dict"
  nested_int_ref :: "nat option"

text \<open>The keyword arguments that \<^verbatim>\<open>__new__\<close> collects in its local \<^verbatim>\<open>kwargs\<close>.\<close>

record wrapper_kwargs =
  kw_strides :: "int list"
  kw_storage_offset :: int
  kw_device :: string
  kw_layout :: string
  kw_requires_grad :: bool
  kw_dtype :: string

text \<open>
  Modelled from the spec: \<^verbatim>\<open>torch.Tensor._make_wrapper_subclass(cls, shape, **kwargs)\<close>
  is the host's constructor of a wrapper tensor and is not part of the sources. The result
  has the sizes, strides, storage offset, device, layout, gradient flag and element type
  it is given ("copied from \<open>components[source_key]\<close> at construction time").
\<close>

definition make_wrapper_subclass :: "int list \<Rightarrow> wrapper_kwargs \<Rightarrow> tensor_attrs" where
  "make_wrapper_subclass shp kwargs =
     \<lparr> shape = shp,
       strides = kw_strides kwargs,
       storage_offset = kw_storage_offset kwargs,
       device = kw_device kwargs,
       layout = kw_layout kwargs,
       requires_grad = kw_requires_grad kwargs,
       dtype = kw_dtype kwargs \<rparr>"

subsection \<open>Construction\<close>

text \<open>
  \<^verbatim>\<open>__new__\<close>: the first statement \<^verbatim>\<open>source = metadata[source_field]\<close> raises
  \<^verbatim>\<open>KeyError\<close> before anything is allocated.
\<close>

definition CachedTensor_new :: "tensor dict \<Rightarrow> string \<Rightarrow> exn + tensor_attrs" where
  "CachedTensor_new md sf =
     (case getitem md sf of
        Inl e \<Rightarrow> Inl e
      | Inr source \<Rightarrow>
          Inr (make_wrapper_subclass (shape source)
                 \<lparr> kw_strides = strides source,
                   kw_storage_offset = storage_offset source,
                   kw_device = device source,
                   kw_layout = layout source,
                   kw_requires_grad = requires_grad source,
                   kw_dtype = dtype source \<rparr>))"

text \<open>
  \<^verbatim>\<open>__init__\<close> assigns the three instance attributes of the object that
  \<^verbatim>\<open>__new__\<close> has made; the tensor attributes of that object stay as they are.
\<close>

definition CachedTensor_init :: "tensor_attrs \<Rightarrow> tensor dict \<Rightarrow> string \<Rightarrow> cached_tensor" where
  "CachedTensor_init out md sf =
     \<lparr> shape = shape out,
       strides = strides out,
       storage_offset = storage_offset out,
       device = device out,
       layout = layout out,
       requires_grad = requires_grad out,
       dtype = dtype out,
       source_field = sf,
       metadata = md,
       nested_int_ref = None \<rparr>"

text \<open>
  The call \<^verbatim>\<open>CachedTensor(metadata, source_field)\<close>: \<^verbatim>\<open>__new__\<close>, then
  \<^verbatim>\<open>__init__\<close> on its result. An exception of \<^verbatim>\<open>__new__\<close> leaves no object.
\<close>

definition CachedTensor :: "tensor dict \<Rightarrow> string \<Rightarrow> exn + cached_tensor" where
  "CachedTensor md sf =
     (case CachedTensor_new md sf of
        Inl e \<Rightarrow> Inl e
      | Inr out \<Rightarrow> Inr (CachedTensor_init out md sf))"

subsection \<open>Attribute access\<close>

text \<open>
  \<^verbatim>\<open>__getattr__\<close> is the hook that Python calls when ordinary attribute lookup has
  failed. \<^verbatim>\<open>type(self).__name__\<close> is the class name.
\<close>

definition type_name :: string where
  "type_name = ''CachedTensor''"

definition CachedTensor_getattr :: "cached_tensor \<Rightarrow> string \<Rightarrow> exn + tensor" where
  "CachedTensor_getattr self name =
     (if contains (metadata self) name
      then getitem (metadata self) name
      else Inl (AttributeError
                  (type_name @ '' object has no attribute '' @ [CHR 0x27] @ name @ [CHR 0x27])))"

text \<open>
  What an attribute of a proxy can be: a component (through the hook), one of the three
  instance attributes that \<^verbatim>\<open>__init__\<close> assigns, or something the class itself
  defines (the properties and methods of \<^verbatim>\<open>torch.Tensor\<close> and the methods of
  \<^verbatim>\<open>CachedTensor\<close>), which is opaque here.
\<close>

datatype 'h attr =
    Component tensor
  | SourceField string
  | Metadata "tensor dict"
  | NestedIntRef "nat option"
  | TypeAttr 'h

definition instance_dict :: "cached_tensor \<Rightarrow> string \<Rightarrow> 'h attr option" where
  "instance_dict self name =
     (if name = ''source_field'' then Some (SourceField (source_field self))
      else if name = ''metadata'' then Some (Metadata (metadata self))
      else if name = ''nested_int_ref'' then Some (NestedIntRef (nested_int_ref self))
      else None)"

text \<open>
  The expression \<^verbatim>\<open>p.name\<close>: the instance attributes and the attributes of the class
  are found by ordinary lookup, and only a name that neither defines reaches
  \<^verbatim>\<open>__getattr__\<close>. The attributes of the class are the parameter \<open>type_attrs\<close>
  (\<^verbatim>\<open>torch.Tensor\<close> is not part of the sources; none of its attributes has the name of an
  instance attribute).
\<close>

definition attribute_lookup :: "(string \<rightharpoonup> 'h) \<Rightarrow> cached_tensor \<Rightarrow> string \<Rightarrow> exn + 'h attr" where
  "attribute_lookup type_attrs self name =
     (case instance_dict self name of
        Some a \<Rightarrow> Inr a
      | None \<Rightarrow>
          (case type_attrs name of
             Some h \<Rightarrow> Inr (TypeAttr h)
           | None \<Rightarrow> map_sum id Component (CachedTensor_getattr self name)))"

subsection \<open>Flattening and reconstruction\<close>

definition tensor_flatten :: "cached_tensor \<Rightarrow> string list \<times> string dict" where
  "tensor_flatten self =
     (let ctx = [(''source_field'', source_field self)]
      in (keys (metadata self), ctx))"

definition tensor_unflatten ::
    "tensor dict \<Rightarrow> string dict \<Rightarrow> 'sz \<Rightarrow> 'st \<Rightarrow> exn + cached_tensor" where
  "tensor_unflatten inner_tensors meta outer_size outer_stride =
     (case getitem meta ''source_field'' of
        Inl e \<Rightarrow> Inl e
      | Inr sf \<Rightarrow> CachedTensor inner_tensors sf)"

text \<open>
  Modelled from the spec: the tree-traversal framework that calls the two functions is
  not part of the sources. Between them it builds "a mapping from the same keys previously
  returned by \<open>flatten\<close>, paired with replacement values". \<^verbatim>\<open>__tensor_flatten__\<close>
  returns names only, and the framework reads the value for each name from the proxy by
  attribute lookup, \<^verbatim>\<open>{name: getattr(p, name) for name in names}\<close>; with the values
  left unchanged, this is the mapping that \<^verbatim>\<open>__tensor_unflatten__\<close> receives.
\<close>

fun inner_tensors_of ::
    "(string \<rightharpoonup> 'h) \<Rightarrow> cached_tensor \<Rightarrow> string list \<Rightarrow> exn + 'h attr dict" where
  "inner_tensors_of type_attrs self [] = Inr []"
| "inner_tensors_of type_attrs self (k # ks) =
     (case attribute_lookup type_attrs self k of
        Inl e \<Rightarrow> Inl e
      | Inr v \<Rightarrow>
          (case inner_tensors_of type_attrs self ks of
             Inl e \<Rightarrow> Inl e
           | Inr kvs \<Rightarrow> Inr ((k, v) # kvs)))"

text \<open>
  \<^verbatim>\<open>__tensor_unflatten__\<close> annotates \<^verbatim>\<open>inner_tensors\<close> as a bare \<^verbatim>\<open>Dict\<close> and
  passes it to the constructor as it is, so the constructor runs on whatever values
  attribute lookup returned. \<^verbatim>\<open>__new__\<close> reads \<^verbatim>\<open>shape\<close> first: a \<^verbatim>\<open>str\<close>, a
  \<^verbatim>\<open>dict\<close> and \<^verbatim>\<open>None\<close> have no such attribute. What reading the seven attributes
  of any other value gives (an attribute of the class, a \<^verbatim>\<open>nested_int_ref\<close> that has
  been set) is the parameter \<open>host_value\<close>. \<^verbatim>\<open>__init__\<close> stores the mapping as it is,
  so the object made holds values of any kind.
\<close>

definition no_attribute :: "string \<Rightarrow> string \<Rightarrow> exn" where
  "no_attribute ty name =
     AttributeError
       ([CHR 0x27] @ ty @ [CHR 0x27] @ '' object has no attribute '' @ [CHR 0x27] @ name
          @ [CHR 0x27])"

definition read_tensor_attrs ::
    "('h attr \<Rightarrow> exn + tensor_attrs) \<Rightarrow> 'h attr \<Rightarrow> exn + tensor_attrs" where
  "read_tensor_attrs host_value source =
     (case source of
        Component t \<Rightarrow>
          Inr \<lparr> shape = shape t,
                strides = strides t,
                storage_offset = storage_offset t,
                device = device t,
                layout = layout t,
                requires_grad = requires_grad t,
                dtype = dtype t \<rparr>
      | SourceField s \<Rightarrow> Inl (no_attribute ''str'' ''shape'')
      | Metadata d \<Rightarrow> Inl (no_attribute ''dict'' ''shape'')
      | NestedIntRef None \<Rightarrow> Inl (no_attribute ''NoneType'' ''shape'')
      | NestedIntRef (Some n) \<Rightarrow> host_value source
      | TypeAttr h \<Rightarrow> host_value source)"

record 'h rebuilt_tensor = tensor_attrs +
  rebuilt_source_field :: string
  rebuilt_metadata :: "'h attr dict"
  rebuilt_nested_int_ref :: "nat option"

definition CachedTensor_new_resolved ::
    "('h attr \<Rightarrow> exn + tensor_attrs) \<Rightarrow> 'h attr dict \<Rightarrow> string \<Rightarrow> exn + tensor_attrs" where
  "CachedTensor_new_resolved host_value md sf =
     (case getitem md sf of
        Inl e \<Rightarrow> Inl e
      | Inr source \<Rightarrow>
          (case read_tensor_attrs host_value source of
             Inl e \<Rightarrow> Inl e
           | Inr a \<Rightarrow>
               Inr (make_wrapper_subclass (shape a)
                      \<lparr> kw_strides = strides a,
                        kw_storage_offset = storage_offset a,
                        kw_device = device a,
                        kw_layout = layout a,
                        kw_requires_grad = requires_grad a,
                        kw_dtype = dtype a \<rparr>)))"

definition CachedTensor_resolved ::
    "('h attr \<Rightarrow> exn + tensor_attrs) \<Rightarrow> 'h attr dict \<Rightarrow> string \<Rightarrow> exn + 'h rebuilt_tensor" where
  "CachedTensor_resolved host_value md sf =
     (case CachedTensor_new_resolved host_value md sf of
        Inl e \<Rightarrow> Inl e
      | Inr out \<Rightarrow>
          Inr \<lparr> shape = shape out,
                strides = strides out,
                storage_offset = storage_offset out,
                device = device out,
                layout = layout out,
                requires_grad = requires_grad out,
                dtype = dtype out,
                rebuilt_source_field = sf,
                rebuilt_metadata = md,
                rebuilt_nested_int_ref = None \<rparr>)"

definition tensor_unflatten_resolved ::
    "('h attr \<Rightarrow> exn + tensor_attrs) \<Rightarrow> 'h attr dict \<Rightarrow> string dict \<Rightarrow> 'sz \<Rightarrow> 'st
       \<Rightarrow> exn + 'h rebuilt_tensor" where
  "tensor_unflatten_resolved host_value inner_tensors meta outer_size outer_stride =
     (case getitem meta ''source_field'' of
        Inl e \<Rightarrow> Inl e
      | Inr sf \<Rightarrow> CachedTensor_resolved host_value inner_tensors sf)"

subsection \<open>Argument trees\<close>

text \<open>
  The arguments of an operation: tensors, proxies and other leaves, nested in tuples,
  lists and dictionaries. The components of a proxy are ordinary tensors, as the
  annotation \<^verbatim>\<open>Dict[str, torch.Tensor]\<close> of the constructor says.
\<close>

datatype 'a pytree =
    Tensor tensor
  | Cached cached_tensor
  | Leaf 'a
  | PyTuple "'a pytree list"
  | PyList "'a pytree list"
  | PyDict "'a pytree dict"

text \<open>Mapping a function that may raise stops at the first exception, in order.\<close>

fun collect :: "('e + 'b) list \<Rightarrow> 'e + 'b list" where
  "collect [] = Inr []"
| "collect (Inl e # rs) = Inl e"
| "collect (Inr v # rs) = (case collect rs of Inl e \<Rightarrow> Inl e | Inr vs \<Rightarrow> Inr (v # vs))"

fun collect_items :: "(string \<times> ('e + 'b)) list \<Rightarrow> 'e + 'b dict" where
  "collect_items [] = Inr []"
| "collect_items ((k, Inl e) # rs) = Inl e"
| "collect_items ((k, Inr v) # rs) =
     (case collect_items rs of Inl e \<Rightarrow> Inl e | Inr kvs \<Rightarrow> Inr ((k, v) # kvs))"

text \<open>
  Modelled from the spec: \<^verbatim>\<open>pytree.tree_map_only(CachedTensor, fn, tree)\<close> belongs to
  \<^verbatim>\<open>torch.utils._pytree\<close>, which is not part of the sources. It "recursively
  replace[s] every Proxy appearing anywhere in \<open>argument_tree\<close>" by what \<open>fn\<close> returns for
  it, and leaves every other leaf and the structure of the tree as they are.
\<close>

primrec tree_map_only ::
    "(cached_tensor \<Rightarrow> exn + 'a pytree) \<Rightarrow> 'a pytree \<Rightarrow> exn + 'a pytree" where
  "tree_map_only fn (Tensor t) = Inr (Tensor t)"
| "tree_map_only fn (Cached x) = fn x"
| "tree_map_only fn (Leaf a) = Inr (Leaf a)"
| "tree_map_only fn (PyTuple xs) =
     map_sum id PyTuple (collect (map (tree_map_only fn) xs))"
| "tree_map_only fn (PyList xs) =
     map_sum id PyList (collect (map (tree_map_only fn) xs))"
| "tree_map_only fn (PyDict kvs) =
     map_sum id PyDict (collect_items (map (map_prod id (tree_map_only fn)) kvs))"

text \<open>
  The two calls of the dispatcher are on the tuple of positional arguments and on the
  dictionary of keyword arguments; the results are again a tuple and a dictionary, which
  \<^verbatim>\<open>*\<close> and \<^verbatim>\<open>**\<close> unpack.
\<close>

definition tree_map_only_args ::
    "(cached_tensor \<Rightarrow> exn + 'a pytree) \<Rightarrow> 'a pytree list \<Rightarrow> exn + 'a pytree list" where
  "tree_map_only_args fn args = collect (map (tree_map_only fn) args)"

definition tree_map_only_kwargs ::
    "(cached_tensor \<Rightarrow> exn + 'a pytree) \<Rightarrow> 'a pytree dict \<Rightarrow> exn + 'a pytree dict" where
  "tree_map_only_kwargs fn kwargs = collect_items (map (map_prod id (tree_map_only fn)) kwargs)"

text \<open>The function of both calls: \<^verbatim>\<open>lambda x: x.metadata[x.source_field]\<close>.\<close>

definition unwrap :: "cached_tensor \<Rightarrow> exn + 'a pytree" where
  "unwrap x = map_sum id Tensor (getitem (metadata x) (source_field x))"

subsection \<open>The registry and the module state\<close>

text \<open>
  \<^verbatim>\<open>_func_registry\<close> is a global variable that refers to a dictionary object.
  \<^verbatim>\<open>set_func_registry\<close> rebinds the variable, the decorator writes into the object
  the variable refers to at that moment: the two are told apart by an explicit store,
  from the identity of a dictionary object to its contents. The registered functions are
  opaque callables \<open>'f\<close>, the operations opaque identities \<open>'op\<close>.
\<close>

type_synonym ref = nat

record ('op, 'f) module_state =
  func_registry :: ref
  heap :: "ref \<Rightarrow> ('op \<rightharpoonup> 'f)"

text \<open>
  Line 92, \<^verbatim>\<open>_func_registry: Dict[Any, Callable] = {}\<close>: when the module is loaded the
  variable refers to a new, empty dictionary, the module-level default registry.
\<close>

definition default_registry :: ref where
  "default_registry = 0"

definition module_init :: "('op, 'f) module_state" where
  "module_init = \<lparr> func_registry = default_registry, heap = (\<lambda>r. Map.empty) \<rparr>"

definition active_registry :: "('op, 'f) module_state \<Rightarrow> ('op \<rightharpoonup> 'f)" where
  "active_registry s = heap s (func_registry s)"

text \<open>
  \<^verbatim>\<open>set_func_registry\<close> as a \<^verbatim>\<open>with\<close> statement around a body. The body is any
  computation on the module state that returns or raises; the \<^verbatim>\<open>finally\<close> clause runs
  on both paths and the exception of the body propagates.
\<close>

definition set_func_registry ::
    "ref \<Rightarrow> (('op, 'f) module_state \<Rightarrow> ('e + 'r) \<times> ('op, 'f) module_state)
         \<Rightarrow> ('op, 'f) module_state \<Rightarrow> ('e + 'r) \<times> ('op, 'f) module_state" where
  "set_func_registry registry body s =
     (let old_registry = func_registry s;
          s1 = s\<lparr>func_registry := registry\<rparr>
      in case body s1 of
           (Inr v, s2) \<Rightarrow> (Inr v, s2\<lparr>func_registry := old_registry\<rparr>)
         | (Inl e, s2) \<Rightarrow> (Inl e, s2\<lparr>func_registry := old_registry\<rparr>))"

text \<open>A body that completes normally with the result of a computation that cannot raise.\<close>

definition returning ::
    "('s \<Rightarrow> 'r \<times> 's) \<Rightarrow> 's \<Rightarrow> ('e + 'r) \<times> 's" where
  "returning m s = (case m s of (r, s') \<Rightarrow> (Inr r, s'))"

text \<open>
  The decorator. \<^verbatim>\<open>wrapper\<close> reads the global variable when it is applied to the
  function, stores the function under the operation and returns it.
\<close>

definition wrapper :: "'op \<Rightarrow> 'f \<Rightarrow> ('op, 'f) module_state \<Rightarrow> 'f \<times> ('op, 'f) module_state" where
  "wrapper aten_op func s =
     (func, s\<lparr>heap := (heap s)(func_registry s := (heap s (func_registry s))(aten_op \<mapsto> func))\<rparr>)"

definition register_cached_tensor_func ::
    "'op \<Rightarrow> ('f \<Rightarrow> ('op, 'f) module_state \<Rightarrow> 'f \<times> ('op, 'f) module_state)" where
  "register_cached_tensor_func aten_op = wrapper aten_op"

subsection \<open>Dispatch\<close>

text \<open>
  What the dispatcher takes from its host: the effect on the module state of
  \<^verbatim>\<open>import torch.nested._internal.ops\<close> (a module that is not part of the sources and
  that registers functions when it is first loaded), the call of a registered function
  \<^verbatim>\<open>f(op, *args, **kwargs)\<close>, and the call of the operation itself
  \<^verbatim>\<open>op(*args, **kwargs)\<close>. Both calls return or raise and may change the module state.
\<close>

record ('op, 'f, 'a) host =
  import_ops :: "('op, 'f) module_state \<Rightarrow> ('op, 'f) module_state"
  call_func :: "'f \<Rightarrow> 'op \<Rightarrow> 'a pytree list \<Rightarrow> 'a pytree dict
                  \<Rightarrow> ('op, 'f) module_state \<Rightarrow> (exn + 'a pytree) \<times> ('op, 'f) module_state"
  call_op :: "'op \<Rightarrow> 'a pytree list \<Rightarrow> 'a pytree dict
                  \<Rightarrow> ('op, 'f) module_state \<Rightarrow> (exn + 'a pytree) \<times> ('op, 'f) module_state"

definition torch_dispatch ::
    "('op, 'f, 'a) host \<Rightarrow> 'op \<Rightarrow> 'ty \<Rightarrow> 'a pytree list \<Rightarrow> 'a pytree dict option
       \<Rightarrow> ('op, 'f) module_state \<Rightarrow> (exn + 'a pytree) \<times> ('op, 'f) module_state" where
  "torch_dispatch H op types args kwargs s0 =
     (let s = import_ops H s0;
          kwargs = (case kwargs of None \<Rightarrow> [] | Some kw \<Rightarrow> kw)
      in case active_registry s op of
           Some f \<Rightarrow> call_func H f op args kwargs s
         | None \<Rightarrow>
             (case tree_map_only_args unwrap args of
                Inl e \<Rightarrow> (Inl e, s)
              | Inr unwrapped_args \<Rightarrow>
                  (case tree_map_only_kwargs unwrap kwargs of
                     Inl e \<Rightarrow> (Inl e, s)
                   | Inr unwrapped_kwargs \<Rightarrow>
                       call_op H op unwrapped_args unwrapped_kwargs s)))"

subsection \<open>The unwrapped argument tree\<close>

text \<open>
  The tree that the fallback path is said to pass to the operation: every proxy in it
  replaced by the component under its own \<open>source_field\<close>, everything else unchanged.
  A proxy made by the constructor has its \<open>source_field\<close> among its components
  (\<open>proxies_ok\<close>), and a tree without any proxy is \<open>proxy_free\<close>.
\<close>

primrec replace_proxies :: "'a pytree \<Rightarrow> 'a pytree" where
  "replace_proxies (Tensor t) = Tensor t"
| "replace_proxies (Cached x) =
     (case map_of (metadata x) (source_field x) of
        Some t \<Rightarrow> Tensor t
      | None \<Rightarrow> Cached x)"
| "replace_proxies (Leaf a) = Leaf a"
| "replace_proxies (PyTuple xs) = PyTuple (map replace_proxies xs)"
| "replace_proxies (PyList xs) = PyList (map replace_proxies xs)"
| "replace_proxies (PyDict kvs) = PyDict (map (map_prod id replace_proxies) kvs)"

fun proxies_ok :: "'a pytree \<Rightarrow> bool" where
  "proxies_ok (Cached x) = contains (metadata x) (source_field x)"
| "proxies_ok (PyTuple xs) = (\<forall>x \<in> set xs. proxies_ok x)"
| "proxies_ok (PyList xs) = (\<forall>x \<in> set xs. proxies_ok x)"
| "proxies_ok (PyDict kvs) = (\<forall>kv \<in> set kvs. proxies_ok (snd kv))"
| "proxies_ok (Tensor t) = True"
| "proxies_ok (Leaf a) = True"

fun proxy_free :: "'a pytree \<Rightarrow> bool" where
  "proxy_free (Cached x) = False"
| "proxy_free (PyTuple xs) = (\<forall>x \<in> set xs. proxy_free x)"
| "proxy_free (PyList xs) = (\<forall>x \<in> set xs. proxy_free x)"
| "proxy_free (PyDict kvs) = (\<forall>kv \<in> set kvs. proxy_free (snd kv))"
| "proxy_free (Tensor t) = True"
| "proxy_free (Leaf a) = True"


subsection \<open>Example values\<close>

text \<open>
  Two component tensors; the two proxies over both, one for each source; a proxy one of
  whose component names is also the name of an instance attribute; a host whose calls
  return what they were called with and whose import registers one function; a proxy for
  the round trip, whose source is the second key; a host in which no value but a tensor
  can be read as one; and a body that registers a function and then raises.
\<close>

definition values_t :: tensor where
  "values_t = \<lparr> shape = [4, 3], strides = [3, 1], storage_offset = 0, device = ''cpu'',
                 layout = ''strided'', requires_grad = True, dtype = ''float32'', data = 1 \<rparr>"

definition offsets_t :: tensor where
  "offsets_t = \<lparr> shape = [5], strides = [1], storage_offset = 2, device = ''cuda:0'',
                  layout = ''strided'', requires_grad = False, dtype = ''int64'', data = 2 \<rparr>"

definition example_metadata :: "tensor dict" where
  "example_metadata = [(''_offsets'', offsets_t), (''_values'', values_t)]"

definition example_proxy :: cached_tensor where
  "example_proxy =
     \<lparr> shape = [4, 3], strides = [3, 1], storage_offset = 0, device = ''cpu'',
       layout = ''strided'', requires_grad = True, dtype = ''float32'',
       source_field = ''_values'', metadata = example_metadata, nested_int_ref = None \<rparr>"

definition offsets_proxy :: cached_tensor where
  "offsets_proxy =
     \<lparr> shape = [5], strides = [1], storage_offset = 2, device = ''cuda:0'',
       layout = ''strided'', requires_grad = False, dtype = ''int64'',
       source_field = ''_offsets'', metadata = example_metadata, nested_int_ref = None \<rparr>"

definition shadowed_metadata :: "tensor dict" where
  "shadowed_metadata = [(''metadata'', offsets_t)]"

definition shadowed_proxy :: cached_tensor where
  "shadowed_proxy =
     \<lparr> shape = [5], strides = [1], storage_offset = 2, device = ''cuda:0'',
       layout = ''strided'', requires_grad = False, dtype = ''int64'',
       source_field = ''metadata'', metadata = shadowed_metadata, nested_int_ref = None \<rparr>"

definition echo_func ::
    "nat \<Rightarrow> string \<Rightarrow> nat pytree list \<Rightarrow> nat pytree dict
       \<Rightarrow> (string, nat) module_state \<Rightarrow> (exn + nat pytree) \<times> (string, nat) module_state" where
  "echo_func f op args kwargs s = (Inr (PyTuple [Leaf f, PyTuple args, PyDict kwargs]), s)"

definition echo_op ::
    "string \<Rightarrow> nat pytree list \<Rightarrow> nat pytree dict
       \<Rightarrow> (string, nat) module_state \<Rightarrow> (exn + nat pytree) \<times> (string, nat) module_state" where
  "echo_op op args kwargs s = (Inr (PyTuple [PyTuple args, PyDict kwargs]), s)"

definition example_import :: "(string, nat) module_state \<Rightarrow> (string, nat) module_state" where
  "example_import s = snd (register_cached_tensor_func ''aten.detach'' 11 s)"

definition example_host :: "(string, nat, nat) host" where
  "example_host = \<lparr> import_ops = example_import, call_func = echo_func, call_op = echo_op \<rparr>"

definition roundtrip_metadata :: "tensor dict" where
  "roundtrip_metadata = [(''_offsets'', offsets_t), (''_lengths'', values_t)]"

definition roundtrip_proxy :: cached_tensor where
  "roundtrip_proxy =
     \<lparr> shape = [4, 3], strides = [3, 1], storage_offset = 0, device = ''cpu'',
       layout = ''strided'', requires_grad = True, dtype = ''float32'',
       source_field = ''_lengths'', metadata = roundtrip_metadata, nested_int_ref = None \<rparr>"

definition opaque_value :: "unit attr \<Rightarrow> exn + tensor_attrs" where
  "opaque_value v = Inl (HostError ''opaque'')"

definition failing_body ::
    "(string, nat) module_state \<Rightarrow> (exn + nat) \<times> (string, nat) module_state" where
  "failing_body s =
     (Inl (HostError ''failed''), snd (register_cached_tensor_func ''aten.add'' 3 s))"


section \<open>Properties\<close>

subsection \<open>Dictionaries\<close>

lemma getitem_Inr_iff: "getitem d k = Inr v \<longleftrightarrow> map_of d k = Some v"
  by (simp add: getitem_def split: option.splits)

lemma getitem_Inl_iff: "getitem d k = Inl e \<longleftrightarrow> map_of d k = None \<and> e = KeyError k"
  by (auto simp: getitem_def split: option.splits)

subsection \<open>Construction\<close>

text \<open>
  C5. Whenever \<open>source_field\<close> is a key of the component dictionary, the constructor
  returns a proxy, and the shape, strides, storage offset, device, layout,
  requires-gradient flag and element type of that proxy are those of the component stored
  under \<open>source_field\<close>.
\<close>

theorem create_copies_source_attributes:
  assumes "getitem md sf = Inr source"
  shows "\<exists>p. CachedTensor md sf = Inr p
           \<and> shape p = shape source
           \<and> strides p = strides source
           \<and> storage_offset p = storage_offset source
           \<and> device p = device source
           \<and> layout p = layout source
           \<and> requires_grad p = requires_grad source
           \<and> dtype p = dtype source"
  using assms
  by (simp add: CachedTensor_def CachedTensor_new_def CachedTensor_init_def
      make_wrapper_subclass_def)

theorem create_copies_source_attributes_witness:
  "getitem example_metadata ''_values'' = Inr values_t
   \<and> (\<exists>p. CachedTensor example_metadata ''_values'' = Inr p
           \<and> shape p = [4, 3]
           \<and> strides p = [3, 1]
           \<and> storage_offset p = 0
           \<and> device p = ''cpu''
           \<and> layout p = ''strided''
           \<and> requires_grad p = True
           \<and> dtype p = ''float32'')"
proof -
  have h: "getitem example_metadata ''_values'' = Inr values_t"
    by (simp add: getitem_def example_metadata_def)
  from create_copies_source_attributes [OF h] show ?thesis
    using h by (simp add: values_t_def)
qed

text \<open>
  C7. When \<open>source_field\<close> is not a key of the component dictionary, \<^verbatim>\<open>__new__\<close>
  raises \<^verbatim>\<open>KeyError\<close> for that key, so that no wrapper object is made and
  \<^verbatim>\<open>__init__\<close> never runs: the constructor call raises the same \<^verbatim>\<open>KeyError\<close> and
  returns no proxy, whatever other components the dictionary holds.
\<close>

theorem create_missing_source_fails:
  assumes "\<not> contains md sf"
  shows "CachedTensor_new md sf = Inl (KeyError sf) \<and> CachedTensor md sf = Inl (KeyError sf)"
  using assms
  by (simp add: CachedTensor_def CachedTensor_new_def contains_def getitem_def)

theorem create_missing_source_fails_witness:
  "\<not> contains example_metadata ''_lengths''
   \<and> CachedTensor_new example_metadata ''_lengths'' = Inl (KeyError ''_lengths'')
   \<and> CachedTensor example_metadata ''_lengths'' = Inl (KeyError ''_lengths'')"
proof -
  have h: "\<not> contains example_metadata ''_lengths''"
    by (simp add: contains_def example_metadata_def)
  from create_missing_source_fails [OF h] h show ?thesis by simp
qed

subsection \<open>Unwrapping\<close>

lemma collect_map_Inr:
  "(\<And>x. x \<in> set xs \<Longrightarrow> f x = Inr (g x)) \<Longrightarrow> collect (map f xs) = Inr (map g xs)"
  by (induction xs) simp_all

lemma collect_items_map_Inr:
  "\<forall>kv \<in> set kvs. f (snd kv) = Inr (g (snd kv))
     \<Longrightarrow> collect_items (map (map_prod id f) kvs) = Inr (map (map_prod id g) kvs)"
  by (induction kvs) auto

lemma tree_map_only_unwrap:
  "proxies_ok t \<Longrightarrow> tree_map_only unwrap t = Inr (replace_proxies t)"
proof (induction t)
  case (Cached x)
  then show ?case
    by (auto simp: unwrap_def getitem_def contains_def split: option.splits)
next
  case (PyTuple xs)
  then have "collect (map (tree_map_only unwrap) xs) = Inr (map replace_proxies xs)"
    by (intro collect_map_Inr) simp
  then show ?case by simp
next
  case (PyList xs)
  then have "collect (map (tree_map_only unwrap) xs) = Inr (map replace_proxies xs)"
    by (intro collect_map_Inr) simp
  then show ?case by simp
next
  case (PyDict kvs)
  have "collect_items (map (map_prod id (tree_map_only unwrap)) kvs)
          = Inr (map (map_prod id replace_proxies) kvs)"
  proof (rule collect_items_map_Inr, rule ballI)
    fix kv assume kv: "kv \<in> set kvs"
    with PyDict.prems have ok: "proxies_ok (snd kv)" by simp
    have "snd kv \<in> Basic_BNFs.snds kv" by (cases kv) simp
    from PyDict.IH [OF kv this ok]
    show "tree_map_only unwrap (snd kv) = Inr (replace_proxies (snd kv))" .
  qed
  then show ?case by simp
qed simp_all

lemma proxy_free_replace_proxies:
  "proxies_ok t \<Longrightarrow> proxy_free (replace_proxies t)"
proof (induction t)
  case (Cached x)
  then show ?case by (auto simp: contains_def split: option.splits)
next
  case (PyDict kvs)
  then show ?case by fastforce
qed auto

lemma tree_map_only_args_unwrap:
  "\<forall>a \<in> set args. proxies_ok a \<Longrightarrow>
     tree_map_only_args unwrap args = Inr (map replace_proxies args)"
  unfolding tree_map_only_args_def
  by (intro collect_map_Inr) (simp add: tree_map_only_unwrap)

lemma tree_map_only_kwargs_unwrap:
  "\<forall>kv \<in> set kw. proxies_ok (snd kv) \<Longrightarrow>
     tree_map_only_kwargs unwrap kw = Inr (map (map_prod id replace_proxies) kw)"
  unfolding tree_map_only_kwargs_def
  by (intro collect_items_map_Inr) (auto simp: tree_map_only_unwrap)

lemma constructed_proxy_ok:
  "CachedTensor md sf = Inr p \<Longrightarrow> metadata p = md \<and> source_field p = sf \<and> contains md sf"
  by (auto simp: CachedTensor_def CachedTensor_new_def CachedTensor_init_def contains_def
      getitem_def
      split: option.splits sum.splits)

lemma constructed_proxies_ok:
  "CachedTensor md sf = Inr p \<Longrightarrow> proxies_ok (Cached p)"
  by (simp add: constructed_proxy_ok)

subsection \<open>The example values\<close>

lemma example_proxy_constructed: "CachedTensor example_metadata ''_values'' = Inr example_proxy"
  by (simp add: CachedTensor_def CachedTensor_new_def CachedTensor_init_def getitem_def
      make_wrapper_subclass_def
      example_metadata_def example_proxy_def values_t_def)

lemma offsets_proxy_constructed: "CachedTensor example_metadata ''_offsets'' = Inr offsets_proxy"
  by (simp add: CachedTensor_def CachedTensor_new_def CachedTensor_init_def getitem_def
      make_wrapper_subclass_def
      example_metadata_def offsets_proxy_def offsets_t_def)

lemma shadowed_proxy_constructed: "CachedTensor shadowed_metadata ''metadata'' = Inr shadowed_proxy"
  by (simp add: CachedTensor_def CachedTensor_new_def CachedTensor_init_def getitem_def
      make_wrapper_subclass_def
      shadowed_metadata_def shadowed_proxy_def offsets_t_def)

lemma example_import_registry:
  "active_registry (example_import module_init) = [''aten.detach'' \<mapsto> 11]"
  by (simp add: example_import_def register_cached_tensor_func_def wrapper_def
      active_registry_def module_init_def)


subsection \<open>Dispatch\<close>

text \<open>
  C1. When the operation is not a key of the registry that the dispatcher consults (the
  active registry, after the import at the head of the function has run), the call is
  the operation's own call, through the host, on the positional and keyword arguments in
  which every proxy, at any depth, is replaced by the component under that proxy's own
  \<open>source_field\<close>; the result and the state of that call are returned as they are. The
  trees passed on contain no proxy. In particular, dispatching on the single argument
  \<open>p\<close> is the operation's call on \<open>p.metadata[p.source_field]\<close>. The proxies in the
  arguments are proxies as the constructor makes them: \<open>source_field\<close> is a key of
  \<open>metadata\<close>.
\<close>

theorem dispatch_unregistered_unwraps:
  assumes "active_registry (import_ops H s) op = None"
    and "\<forall>a \<in> set args. proxies_ok a"
    and "\<forall>kv \<in> set (case kwargs of None \<Rightarrow> [] | Some kw \<Rightarrow> kw). proxies_ok (snd kv)"
  shows "torch_dispatch H op types args kwargs s =
           call_op H op (map replace_proxies args)
             (map (map_prod id replace_proxies) (case kwargs of None \<Rightarrow> [] | Some kw \<Rightarrow> kw))
             (import_ops H s)
         \<and> (\<forall>a \<in> set (map replace_proxies args). proxy_free a)
         \<and> (\<forall>kv \<in> set (map (map_prod id replace_proxies)
                           (case kwargs of None \<Rightarrow> [] | Some kw \<Rightarrow> kw)). proxy_free (snd kv))
         \<and> (\<forall>p src. getitem (metadata p) (source_field p) = Inr src \<longrightarrow>
               replace_proxies (Cached p :: 'a pytree) = Tensor src
               \<and> torch_dispatch H op types [Cached p] None s
                   = call_op H op [Tensor src] [] (import_ops H s))"
proof -
  let ?kw = "case kwargs of None \<Rightarrow> [] | Some kw \<Rightarrow> kw"
  have a: "tree_map_only_args unwrap args = Inr (map replace_proxies args)"
    using assms(2) by (rule tree_map_only_args_unwrap)
  have k: "tree_map_only_kwargs unwrap ?kw = Inr (map (map_prod id replace_proxies) ?kw)"
    using assms(3) by (rule tree_map_only_kwargs_unwrap)
  have 1: "torch_dispatch H op types args kwargs s =
           call_op H op (map replace_proxies args) (map (map_prod id replace_proxies) ?kw)
             (import_ops H s)"
    using assms(1) a k by (simp add: torch_dispatch_def Let_def)
  have 2: "\<forall>a \<in> set (map replace_proxies args). proxy_free a"
    using assms(2) by (simp add: proxy_free_replace_proxies)
  have 3: "\<forall>kv \<in> set (map (map_prod id replace_proxies) ?kw). proxy_free (snd kv)"
    using assms(3) by (auto simp: proxy_free_replace_proxies)
  have 4: "replace_proxies (Cached p :: 'a pytree) = Tensor src
           \<and> torch_dispatch H op types [Cached p] None s
               = call_op H op [Tensor src] [] (import_ops H s)"
    if "getitem (metadata p) (source_field p) = Inr src" for p src
    using that assms(1)
    by (simp add: torch_dispatch_def Let_def tree_map_only_args_def tree_map_only_kwargs_def
        unwrap_def getitem_def split: option.splits)
  from 1 2 3 4 show ?thesis by blast
qed

theorem dispatch_unregistered_unwraps_witness:
  "active_registry (import_ops example_host module_init) ''aten.sin'' = None
   \<and> proxies_ok (PyTuple [PyList [Cached example_proxy, Leaf (3::nat)], Cached offsets_proxy])
   \<and> proxies_ok (PyDict [(''out'', PyTuple [Cached example_proxy :: nat pytree])])
   \<and> torch_dispatch example_host ''aten.sin'' ()
        [PyList [Cached example_proxy, Leaf 3], Cached offsets_proxy]
        (Some [(''out'', PyTuple [Cached example_proxy])]) module_init
       = (Inr (PyTuple [PyTuple [PyList [Tensor values_t, Leaf 3], Tensor offsets_t],
                        PyDict [(''out'', PyTuple [Tensor values_t])]]),
          example_import module_init)
   \<and> getitem (metadata example_proxy) (source_field example_proxy) = Inr values_t
   \<and> torch_dispatch example_host ''aten.sin'' () [Cached example_proxy] None module_init
       = (Inr (PyTuple [PyTuple [Tensor values_t], PyDict []]), example_import module_init)"
proof -
  let ?args = "[PyList [Cached example_proxy, Leaf (3::nat)], Cached offsets_proxy]"
  let ?kw = "[(''out'', PyTuple [Cached example_proxy :: nat pytree])]"
  have r: "active_registry (import_ops example_host module_init) ''aten.sin'' = None"
    by (simp add: example_host_def example_import_registry)
  have a: "\<forall>a \<in> set ?args. proxies_ok a"
    by (simp add: contains_def example_proxy_def offsets_proxy_def example_metadata_def)
  have k: "\<forall>kv \<in> set (case Some ?kw of None \<Rightarrow> [] | Some kw \<Rightarrow> kw). proxies_ok (snd kv)"
    by (simp add: contains_def example_proxy_def example_metadata_def)
  have d: "torch_dispatch example_host ''aten.sin'' () ?args (Some ?kw) module_init =
             call_op example_host ''aten.sin'' (map replace_proxies ?args)
               (map (map_prod id replace_proxies) (case Some ?kw of None \<Rightarrow> [] | Some kw \<Rightarrow> kw))
               (import_ops example_host module_init)"
    using dispatch_unregistered_unwraps [OF r a k, where types = "()"] by (rule conjunct1)
  have e: "call_op example_host ''aten.sin'' (map replace_proxies ?args)
               (map (map_prod id replace_proxies) (case Some ?kw of None \<Rightarrow> [] | Some kw \<Rightarrow> kw))
               (import_ops example_host module_init)
           = (Inr (PyTuple [PyTuple [PyList [Tensor values_t, Leaf 3], Tensor offsets_t],
                            PyDict [(''out'', PyTuple [Tensor values_t])]]),
              example_import module_init)"
    by (simp add: example_host_def echo_op_def example_proxy_def offsets_proxy_def
        example_metadata_def)
  have oa: "proxies_ok (PyTuple ?args)" using a by simp
  have ok: "proxies_ok (PyDict ?kw)" using k by simp
  have g: "getitem (metadata example_proxy) (source_field example_proxy) = Inr values_t"
    by (simp add: getitem_def example_proxy_def example_metadata_def)
  have d1: "torch_dispatch example_host ''aten.sin'' () [Cached example_proxy] None module_init
              = call_op example_host ''aten.sin'' [Tensor values_t] []
                  (import_ops example_host module_init)"
    using dispatch_unregistered_unwraps [OF r a k, where types = "()"] g by blast
  have e1: "call_op example_host ''aten.sin'' [Tensor values_t] []
              (import_ops example_host module_init)
            = (Inr (PyTuple [PyTuple [Tensor values_t], PyDict []]), example_import module_init)"
    by (simp add: example_host_def echo_op_def)
  from r oa ok d [unfolded e] g d1 [unfolded e1] show ?thesis by (intro conjI)
qed

text \<open>
  C2. When the operation is a key of the registry that the dispatcher consults, the call
  is the registered function's call on the operation and the positional and keyword
  arguments exactly as given: no proxy in them is replaced, and the result and the state
  of that call are returned as they are.
\<close>

theorem dispatch_registered_override:
  assumes "active_registry (import_ops H s) op = Some f"
  shows "torch_dispatch H op types args kwargs s =
           call_func H f op args (case kwargs of None \<Rightarrow> [] | Some kw \<Rightarrow> kw) (import_ops H s)"
  using assms by (simp add: torch_dispatch_def Let_def)

theorem dispatch_registered_override_witness:
  "active_registry (import_ops example_host module_init) ''aten.detach'' = Some 11
   \<and> torch_dispatch example_host ''aten.detach'' ()
        [PyList [Cached example_proxy, Leaf 3], Cached offsets_proxy]
        (Some [(''out'', PyTuple [Cached example_proxy])]) module_init
       = (Inr (PyTuple [Leaf 11,
                        PyTuple [PyList [Cached example_proxy, Leaf 3], Cached offsets_proxy],
                        PyDict [(''out'', PyTuple [Cached example_proxy])]]),
          example_import module_init)"
proof -
  let ?args = "[PyList [Cached example_proxy, Leaf (3::nat)], Cached offsets_proxy]"
  let ?kw = "[(''out'', PyTuple [Cached example_proxy :: nat pytree])]"
  have r: "active_registry (import_ops example_host module_init) ''aten.detach'' = Some 11"
    by (simp add: example_host_def example_import_registry)
  have e: "call_func example_host 11 ''aten.detach'' ?args
             (case Some ?kw of None \<Rightarrow> [] | Some kw \<Rightarrow> kw) (import_ops example_host module_init)
           = (Inr (PyTuple [Leaf 11, PyTuple ?args, PyDict ?kw]), example_import module_init)"
    by (simp add: example_host_def echo_func_def)
  from r dispatch_registered_override [OF r, where types = "()" and args = ?args
      and kwargs = "Some ?kw", unfolded e]
  show ?thesis by (intro conjI)
qed

text \<open>
  C10. A call with \<^verbatim>\<open>kwargs=None\<close> is the call with the empty dictionary: a
  registered function is called with no keyword arguments, and otherwise the operation is
  called, on the unwrapped positional arguments, with no keyword arguments.
\<close>

theorem dispatch_kwargs_none:
  "torch_dispatch H op types args None s = torch_dispatch H op types args (Some []) s
   \<and> (active_registry (import_ops H s) op = Some f \<longrightarrow>
        torch_dispatch H op types args None s = call_func H f op args [] (import_ops H s))
   \<and> (active_registry (import_ops H s) op = None \<longrightarrow>
        tree_map_only_args unwrap args = Inr unwrapped_args \<longrightarrow>
        torch_dispatch H op types args None s = call_op H op unwrapped_args [] (import_ops H s))"
  by (simp add: torch_dispatch_def Let_def tree_map_only_kwargs_def)

theorem dispatch_kwargs_none_witness:
  "active_registry (import_ops example_host module_init) ''aten.detach'' = Some 11
   \<and> torch_dispatch example_host ''aten.detach'' () [Cached example_proxy] None module_init
       = (Inr (PyTuple [Leaf 11, PyTuple [Cached example_proxy], PyDict []]),
          example_import module_init)
   \<and> active_registry (import_ops example_host module_init) ''aten.sin'' = None
   \<and> tree_map_only_args unwrap [Cached example_proxy] = Inr [Tensor values_t :: nat pytree]
   \<and> torch_dispatch example_host ''aten.sin'' () [Cached example_proxy] None module_init
       = (Inr (PyTuple [PyTuple [Tensor values_t], PyDict []]), example_import module_init)"
proof -
  let ?args = "[Cached example_proxy :: nat pytree]"
  have r1: "active_registry (import_ops example_host module_init) ''aten.detach'' = Some 11"
    by (simp add: example_host_def example_import_registry)
  have r2: "active_registry (import_ops example_host module_init) ''aten.sin'' = None"
    by (simp add: example_host_def example_import_registry)
  have u: "tree_map_only_args unwrap ?args = Inr [Tensor values_t]"
    by (simp add: tree_map_only_args_def unwrap_def getitem_def example_proxy_def
        example_metadata_def)
  have e1: "call_func example_host 11 ''aten.detach'' ?args [] (import_ops example_host module_init)
            = (Inr (PyTuple [Leaf 11, PyTuple ?args, PyDict []]), example_import module_init)"
    by (simp add: example_host_def echo_func_def)
  have e2: "call_op example_host ''aten.sin'' [Tensor values_t] []
              (import_ops example_host module_init)
            = (Inr (PyTuple [PyTuple [Tensor values_t], PyDict []]), example_import module_init)"
    by (simp add: example_host_def echo_op_def)
  have d1: "torch_dispatch example_host ''aten.detach'' () ?args None module_init
            = call_func example_host 11 ''aten.detach'' ?args [] (import_ops example_host module_init)"
    using dispatch_kwargs_none [of example_host "''aten.detach''" "()" ?args module_init 11] r1
    by blast
  have d2: "torch_dispatch example_host ''aten.sin'' () ?args None module_init
            = call_op example_host ''aten.sin'' [Tensor values_t] []
                (import_ops example_host module_init)"
    using dispatch_kwargs_none [of example_host "''aten.sin''" "()" ?args module_init _
        "[Tensor values_t]"] r2 u
    by blast
  from r1 d1 [unfolded e1] r2 u d2 [unfolded e2] show ?thesis by (intro conjI)
qed

subsection \<open>Attribute access\<close>

text \<open>
  C6, as stated, fails on the code: "attribute lookup returns \<open>components[name]\<close> whenever
  \<open>name\<close> is a key". A proxy built from the dictionary \<^verbatim>\<open>{"metadata": t}\<close> has the
  instance attribute \<^verbatim>\<open>metadata\<close>, which \<^verbatim>\<open>__init__\<close> assigns; ordinary lookup
  finds it, \<^verbatim>\<open>__getattr__\<close> is not called, and \<^verbatim>\<open>p.metadata\<close> is the whole
  dictionary, not the component \<open>t\<close>.
\<close>

theorem attribute_lookup_shadowed_counterexample:
  "CachedTensor shadowed_metadata ''metadata'' = Inr shadowed_proxy
   \<and> contains (metadata shadowed_proxy) ''metadata''
   \<and> getitem (metadata shadowed_proxy) ''metadata'' = Inr offsets_t
   \<and> attribute_lookup (Map.empty :: string \<rightharpoonup> unit) shadowed_proxy ''metadata''
       = Inr (Metadata shadowed_metadata)
   \<and> attribute_lookup (Map.empty :: string \<rightharpoonup> unit) shadowed_proxy ''metadata''
       \<noteq> Inr (Component offsets_t)"
  using shadowed_proxy_constructed
  by (simp add: attribute_lookup_def instance_dict_def contains_def getitem_def
      shadowed_proxy_def shadowed_metadata_def)

text \<open>
  C6, amended. For every proxy and every name that ordinary lookup does not resolve (not
  one of the instance attributes \<^verbatim>\<open>source_field\<close>, \<^verbatim>\<open>metadata\<close>,
  \<^verbatim>\<open>nested_int_ref\<close>, and not an attribute of the class), attribute lookup returns the
  component stored under the name when the name is a key of the component dictionary;
  otherwise it raises \<^verbatim>\<open>AttributeError\<close> with a message that gives the type's name
  and the requested name, and returns no default value. The hook \<^verbatim>\<open>__getattr__\<close>
  itself does so for every name.
\<close>

theorem attribute_lookup_component_or_error:
  "CachedTensor_getattr p name =
     (case map_of (metadata p) name of
        Some t \<Rightarrow> Inr t
      | None \<Rightarrow>
          Inl (AttributeError
                 (''CachedTensor object has no attribute '' @ [CHR 0x27] @ name @ [CHR 0x27])))
   \<and> (name \<notin> {''source_field'', ''metadata'', ''nested_int_ref''} \<and> type_attrs name = None \<longrightarrow>
        attribute_lookup type_attrs p name =
          (case map_of (metadata p) name of
             Some t \<Rightarrow> Inr (Component t)
           | None \<Rightarrow>
               Inl (AttributeError
                      (''CachedTensor object has no attribute '' @ [CHR 0x27] @ name
                         @ [CHR 0x27]))))"
  by (simp add: attribute_lookup_def instance_dict_def CachedTensor_getattr_def contains_def
      getitem_def type_name_def split: option.splits)

theorem attribute_lookup_component_or_error_witness:
  "''_offsets'' \<notin> {''source_field'', ''metadata'', ''nested_int_ref''}
   \<and> ''_lengths'' \<notin> {''source_field'', ''metadata'', ''nested_int_ref''}
   \<and> attribute_lookup (Map.empty :: string \<rightharpoonup> unit) example_proxy ''_offsets''
       = Inr (Component offsets_t)
   \<and> attribute_lookup (Map.empty :: string \<rightharpoonup> unit) example_proxy ''_lengths''
       = Inl (AttributeError
                (''CachedTensor object has no attribute '' @ [CHR 0x27] @ ''_lengths'' @ [CHR 0x27]))"
proof -
  let ?none = "Map.empty :: string \<rightharpoonup> unit"
  have n1: "''_offsets'' \<notin> {''source_field'', ''metadata'', ''nested_int_ref''}" by simp
  have n2: "''_lengths'' \<notin> {''source_field'', ''metadata'', ''nested_int_ref''}" by simp
  have m1: "map_of (metadata example_proxy) ''_offsets'' = Some offsets_t"
    by (simp add: example_proxy_def example_metadata_def)
  have m2: "map_of (metadata example_proxy) ''_lengths'' = None"
    by (simp add: example_proxy_def example_metadata_def)
  have "attribute_lookup ?none example_proxy ''_offsets'' =
          (case map_of (metadata example_proxy) ''_offsets'' of
             Some t \<Rightarrow> Inr (Component t)
           | None \<Rightarrow>
               Inl (AttributeError
                      (''CachedTensor object has no attribute '' @ [CHR 0x27] @ ''_offsets''
                         @ [CHR 0x27])))"
    using attribute_lookup_component_or_error [of example_proxy "''_offsets''" ?none] n1
    by blast
  then have a1: "attribute_lookup ?none example_proxy ''_offsets'' = Inr (Component offsets_t)"
    unfolding m1 by simp
  have "attribute_lookup ?none example_proxy ''_lengths'' =
          (case map_of (metadata example_proxy) ''_lengths'' of
             Some t \<Rightarrow> Inr (Component t)
           | None \<Rightarrow>
               Inl (AttributeError
                      (''CachedTensor object has no attribute '' @ [CHR 0x27] @ ''_lengths''
                         @ [CHR 0x27])))"
    using attribute_lookup_component_or_error [of example_proxy "''_lengths''" ?none] n2
    by blast
  then have a2: "attribute_lookup ?none example_proxy ''_lengths''
       = Inl (AttributeError
                (''CachedTensor object has no attribute '' @ [CHR 0x27] @ ''_lengths'' @ [CHR 0x27]))"
    unfolding m2 by simp
  from n1 n2 a1 a2 show ?thesis by (intro conjI)
qed

subsection \<open>Flattening and reconstruction\<close>

lemma CachedTensor_nested_int_ref:
  "CachedTensor md sf = Inr p \<Longrightarrow> nested_int_ref p = None"
  by (auto simp: CachedTensor_def CachedTensor_init_def split: sum.splits)

lemma roundtrip_proxy_constructed:
  "CachedTensor roundtrip_metadata ''_lengths'' = Inr roundtrip_proxy"
  by (simp add: CachedTensor_def CachedTensor_new_def CachedTensor_init_def getitem_def
      make_wrapper_subclass_def roundtrip_metadata_def roundtrip_proxy_def values_t_def)

lemma lookup_unshadowed_component:
  assumes "name \<notin> {''source_field'', ''metadata'', ''nested_int_ref''}"
    and "type_attrs name = None"
    and "map_of (metadata p) name = Some t"
  shows "attribute_lookup type_attrs p name = Inr (Component t)"
  using assms
  by (simp add: attribute_lookup_def instance_dict_def CachedTensor_getattr_def contains_def
      getitem_def)

lemma inner_tensors_of_items:
  assumes "\<forall>kv \<in> set xs. fst kv \<notin> {''source_field'', ''metadata'', ''nested_int_ref''}
                         \<and> type_attrs (fst kv) = None
                         \<and> map_of (metadata p) (fst kv) = Some (snd kv)"
  shows "inner_tensors_of type_attrs p (map fst xs) = Inr (map (map_prod id Component) xs)"
  using assms
proof (induction xs)
  case Nil
  then show ?case by simp
next
  case (Cons kv xs)
  then have "attribute_lookup type_attrs p (fst kv) = Inr (Component (snd kv))"
    by (intro lookup_unshadowed_component) simp_all
  moreover have "inner_tensors_of type_attrs p (map fst xs)
                   = Inr (map (map_prod id Component) xs)"
  proof (rule Cons.IH)
    show "\<forall>kv \<in> set xs. fst kv \<notin> {''source_field'', ''metadata'', ''nested_int_ref''}
                         \<and> type_attrs (fst kv) = None
                         \<and> map_of (metadata p) (fst kv) = Some (snd kv)"
      using Cons.prems by simp
  qed
  ultimately have step: "inner_tensors_of type_attrs p (fst kv # map fst xs)
                     = Inr ((fst kv, Component (snd kv)) # map (map_prod id Component) xs)"
    by (simp only: inner_tensors_of.simps sum.case)
  have kv: "map_prod id Component kv = (fst kv, Component (snd kv))"
    by (cases kv) simp
  show ?case unfolding list.map kv by (rule step)
qed

lemma inner_tensors_of_keys:
  assumes "distinct (keys (metadata p))"
    and "\<forall>k \<in> set (keys (metadata p)).
           k \<notin> {''source_field'', ''metadata'', ''nested_int_ref''} \<and> type_attrs k = None"
  shows "inner_tensors_of type_attrs p (keys (metadata p))
           = Inr (map (map_prod id Component) (metadata p))"
  unfolding keys_def
proof (rule inner_tensors_of_items, rule ballI)
  fix kv assume kv: "kv \<in> set (metadata p)"
  then have "(fst kv, snd kv) \<in> set (metadata p)" by simp
  with assms(1) have "map_of (metadata p) (fst kv) = Some (snd kv)"
    unfolding keys_def by (rule map_of_is_SomeI)
  moreover from kv have "fst kv \<in> set (keys (metadata p))"
    by (simp add: keys_def)
  ultimately show "fst kv \<notin> {''source_field'', ''metadata'', ''nested_int_ref''}
                   \<and> type_attrs (fst kv) = None
                   \<and> map_of (metadata p) (fst kv) = Some (snd kv)"
    using assms(2) by blast
qed

lemma map_of_map_Component:
  "map_of (map (map_prod id Component) d) k = map_option Component (map_of d k)"
  by (induction d) auto

lemma CachedTensor_resolved_components:
  assumes "CachedTensor md sf = Inr p"
  shows "CachedTensor_resolved host_value (map (map_prod id Component) md) sf =
           Inr \<lparr> shape = shape p,
                 strides = strides p,
                 storage_offset = storage_offset p,
                 device = device p,
                 layout = layout p,
                 requires_grad = requires_grad p,
                 dtype = dtype p,
                 rebuilt_source_field = sf,
                 rebuilt_metadata = map (map_prod id Component) md,
                 rebuilt_nested_int_ref = None \<rparr>"
  using assms
  by (auto simp: CachedTensor_def CachedTensor_new_def CachedTensor_init_def
      CachedTensor_resolved_def CachedTensor_new_resolved_def read_tensor_attrs_def
      make_wrapper_subclass_def getitem_def map_of_map_Component
      split: option.splits sum.splits)

text \<open>
  C4, as stated, fails on the code: "\<open>unflatten\<close> applied to the unchanged \<open>flatten\<close>
  output reconstructs a proxy observably identical to \<open>p\<close>", for every proxy. The proxy
  built from \<^verbatim>\<open>{"metadata": t}\<close> flattens to the one name \<^verbatim>\<open>metadata\<close>; read back
  from the proxy, that name is the instance attribute, the whole dictionary and not the
  component \<open>t\<close>; \<^verbatim>\<open>__tensor_unflatten__\<close> passes that mapping to the constructor,
  where \<^verbatim>\<open>__new__\<close> reads \<^verbatim>\<open>shape\<close> of a \<^verbatim>\<open>dict\<close> and raises
  \<^verbatim>\<open>AttributeError\<close>. No proxy is reconstructed.
\<close>

theorem flatten_unflatten_shadowed_counterexample:
  "CachedTensor shadowed_metadata ''metadata'' = Inr shadowed_proxy
   \<and> tensor_flatten shadowed_proxy = ([''metadata''], [(''source_field'', ''metadata'')])
   \<and> inner_tensors_of (Map.empty :: string \<rightharpoonup> unit) shadowed_proxy [''metadata'']
       = Inr [(''metadata'', Metadata shadowed_metadata)]
   \<and> tensor_unflatten_resolved opaque_value [(''metadata'', Metadata shadowed_metadata)]
        [(''source_field'', ''metadata'')] () ()
       = Inl (AttributeError
                ([CHR 0x27] @ ''dict'' @ [CHR 0x27] @ '' object has no attribute ''
                   @ [CHR 0x27] @ ''shape'' @ [CHR 0x27]))"
  using shadowed_proxy_constructed
  by (simp add: tensor_flatten_def keys_def attribute_lookup_def instance_dict_def
      tensor_unflatten_resolved_def CachedTensor_resolved_def CachedTensor_new_resolved_def
      read_tensor_attrs_def no_attribute_def getitem_def shadowed_proxy_def
      shadowed_metadata_def)

text \<open>
  C4, amended. Let \<open>q\<close> be a proxy made by the constructor from a dictionary \<open>md\<close>
  (whatever \<^verbatim>\<open>nested_int_ref\<close> has been set to since). \<^verbatim>\<open>__tensor_flatten__\<close>
  returns all keys of the component dictionary, in the order of the dictionary, and a
  context from which \<open>source_field\<close> is read back; \<^verbatim>\<open>__tensor_unflatten__\<close> on the
  component dictionary itself and that context returns \<open>q\<close> with \<^verbatim>\<open>nested_int_ref\<close>
  reset to \<^verbatim>\<open>None\<close>. When no key of the dictionary is a name that ordinary attribute
  lookup resolves (an instance attribute, or an attribute of the class), the values read
  back from the proxy under the flattened names are exactly its components, and
  \<^verbatim>\<open>__tensor_unflatten__\<close> on them returns a proxy with the same keys, the same
  components, the same \<open>source_field\<close> and the same shape, strides, storage offset,
  device, layout, gradient flag and element type. The instance that follows has two
  components and the second key as source.
\<close>

theorem flatten_unflatten_roundtrip:
  assumes "distinct (keys md)"
    and "CachedTensor md sf = Inr p"
    and "q = p\<lparr>nested_int_ref := r\<rparr>"
  shows "fst (tensor_flatten q) = keys (metadata q)
         \<and> getitem (snd (tensor_flatten q)) ''source_field'' = Inr (source_field q)
         \<and> tensor_unflatten (metadata q) (snd (tensor_flatten q)) outer_size outer_stride
             = Inr (q\<lparr>nested_int_ref := None\<rparr>)
         \<and> ((\<forall>k \<in> set (keys (metadata q)).
                k \<notin> {''source_field'', ''metadata'', ''nested_int_ref''} \<and> type_attrs k = None)
             \<longrightarrow>
               inner_tensors_of type_attrs q (fst (tensor_flatten q))
                 = Inr (map (map_prod id Component) (metadata q))
               \<and> (\<exists>inner q'.
                     inner_tensors_of type_attrs q (fst (tensor_flatten q)) = Inr inner
                     \<and> tensor_unflatten_resolved host_value inner (snd (tensor_flatten q))
                           outer_size outer_stride = Inr q'
                     \<and> keys (rebuilt_metadata q') = keys (metadata q)
                     \<and> rebuilt_metadata q' = map (map_prod id Component) (metadata q)
                     \<and> rebuilt_source_field q' = source_field q
                     \<and> shape q' = shape q
                     \<and> strides q' = strides q
                     \<and> storage_offset q' = storage_offset q
                     \<and> device q' = device q
                     \<and> layout q' = layout q
                     \<and> requires_grad q' = requires_grad q
                     \<and> dtype q' = dtype q
                     \<and> rebuilt_nested_int_ref q' = None))"
proof -
  from assms(2) have m: "metadata p = md" and s: "source_field p = sf"
    by (simp_all add: constructed_proxy_ok)
  from assms(2) have n: "nested_int_ref p = None" by (rule CachedTensor_nested_int_ref)
  have mq: "metadata q = md" and sq: "source_field q = sf"
    using m s assms(3) by simp_all
  have f: "tensor_flatten q = (keys md, [(''source_field'', sf)])"
    by (simp add: tensor_flatten_def mq sq)
  have e: "q\<lparr>nested_int_ref := None\<rparr> = p"
    using assms(3) n by simp
  have 1: "fst (tensor_flatten q) = keys (metadata q)"
    by (simp add: f mq)
  have 2: "getitem (snd (tensor_flatten q)) ''source_field'' = Inr (source_field q)"
    by (simp add: f sq getitem_def)
  have 3: "tensor_unflatten (metadata q) (snd (tensor_flatten q)) outer_size outer_stride
             = Inr (q\<lparr>nested_int_ref := None\<rparr>)"
    using assms(2) by (simp add: f mq e tensor_unflatten_def getitem_def)
  have attrs: "shape q = shape p" "strides q = strides p" "storage_offset q = storage_offset p"
    "device q = device p" "layout q = layout p" "requires_grad q = requires_grad p"
    "dtype q = dtype p"
    using assms(3) by simp_all
  have 4: "inner_tensors_of type_attrs q (fst (tensor_flatten q))
                 = Inr (map (map_prod id Component) (metadata q))
           \<and> (\<exists>inner q'.
                     inner_tensors_of type_attrs q (fst (tensor_flatten q)) = Inr inner
                     \<and> tensor_unflatten_resolved host_value inner (snd (tensor_flatten q))
                           outer_size outer_stride = Inr q'
                     \<and> keys (rebuilt_metadata q') = keys (metadata q)
                     \<and> rebuilt_metadata q' = map (map_prod id Component) (metadata q)
                     \<and> rebuilt_source_field q' = source_field q
                     \<and> shape q' = shape q
                     \<and> strides q' = strides q
                     \<and> storage_offset q' = storage_offset q
                     \<and> device q' = device q
                     \<and> layout q' = layout q
                     \<and> requires_grad q' = requires_grad q
                     \<and> dtype q' = dtype q
                     \<and> rebuilt_nested_int_ref q' = None)"
    if u: "\<forall>k \<in> set (keys (metadata q)).
             k \<notin> {''source_field'', ''metadata'', ''nested_int_ref''} \<and> type_attrs k = None"
  proof -
    have i: "inner_tensors_of type_attrs q (fst (tensor_flatten q))
               = Inr (map (map_prod id Component) (metadata q))"
      unfolding 1 using assms(1) u by (intro inner_tensors_of_keys) (simp_all add: mq)
    have c: "tensor_unflatten_resolved host_value (map (map_prod id Component) (metadata q))
               (snd (tensor_flatten q)) outer_size outer_stride =
             Inr \<lparr> shape = shape p,
                   strides = strides p,
                   storage_offset = storage_offset p,
                   device = device p,
                   layout = layout p,
                   requires_grad = requires_grad p,
                   dtype = dtype p,
                   rebuilt_source_field = sf,
                   rebuilt_metadata = map (map_prod id Component) md,
                   rebuilt_nested_int_ref = None \<rparr>"
      using CachedTensor_resolved_components [OF assms(2), of host_value]
      by (simp add: tensor_unflatten_resolved_def f mq getitem_def)
    have k: "keys (map (map_prod id Component) md) = keys md"
      by (simp add: keys_def comp_def)
    from i c show ?thesis
      by (simp add: mq sq attrs k)
  qed
  from 1 2 3 4 show ?thesis by blast
qed

theorem flatten_unflatten_roundtrip_witness:
  "distinct (keys roundtrip_metadata)
   \<and> CachedTensor roundtrip_metadata ''_lengths'' = Inr roundtrip_proxy
   \<and> ''_offsets'' \<notin> {''source_field'', ''metadata'', ''nested_int_ref''}
   \<and> ''_lengths'' \<notin> {''source_field'', ''metadata'', ''nested_int_ref''}
   \<and> tensor_flatten (roundtrip_proxy\<lparr>nested_int_ref := Some 5\<rparr>)
       = ([''_offsets'', ''_lengths''], [(''source_field'', ''_lengths'')])
   \<and> inner_tensors_of (Map.empty :: string \<rightharpoonup> unit)
        (roundtrip_proxy\<lparr>nested_int_ref := Some 5\<rparr>) [''_offsets'', ''_lengths'']
       = Inr [(''_offsets'', Component offsets_t), (''_lengths'', Component values_t)]
   \<and> tensor_unflatten_resolved opaque_value
        [(''_offsets'', Component offsets_t), (''_lengths'', Component values_t)]
        [(''source_field'', ''_lengths'')] () ()
       = Inr \<lparr> shape = [4, 3], strides = [3, 1], storage_offset = 0, device = ''cpu'',
               layout = ''strided'', requires_grad = True, dtype = ''float32'',
               rebuilt_source_field = ''_lengths'',
               rebuilt_metadata =
                 [(''_offsets'', Component offsets_t), (''_lengths'', Component values_t)],
               rebuilt_nested_int_ref = None \<rparr>"
proof -
  let ?q = "roundtrip_proxy\<lparr>nested_int_ref := Some 5\<rparr>"
  let ?none = "Map.empty :: string \<rightharpoonup> unit"
  let ?inner = "[(''_offsets'', Component offsets_t), (''_lengths'', Component values_t)]
                  :: unit attr dict"
  have d: "distinct (keys roundtrip_metadata)"
    by (simp add: keys_def roundtrip_metadata_def)
  have n1: "''_offsets'' \<notin> {''source_field'', ''metadata'', ''nested_int_ref''}" by simp
  have n2: "''_lengths'' \<notin> {''source_field'', ''metadata'', ''nested_int_ref''}" by simp
  have f: "tensor_flatten ?q = ([''_offsets'', ''_lengths''], [(''source_field'', ''_lengths'')])"
    by (simp add: tensor_flatten_def keys_def roundtrip_proxy_def roundtrip_metadata_def)
  have mq: "map (map_prod id Component) (metadata roundtrip_proxy) = ?inner"
    by (simp add: roundtrip_proxy_def roundtrip_metadata_def)
  have u: "\<forall>k \<in> set (keys (metadata ?q)).
             k \<notin> {''source_field'', ''metadata'', ''nested_int_ref''} \<and> ?none k = None"
    by (simp add: keys_def roundtrip_proxy_def roundtrip_metadata_def)
  note t = flatten_unflatten_roundtrip [OF d roundtrip_proxy_constructed refl,
      of "Some 5" "()" "()" ?none opaque_value]
  from t u have i: "inner_tensors_of ?none ?q (fst (tensor_flatten ?q))
                      = Inr (map (map_prod id Component) (metadata ?q))"
    by blast
  from t u obtain inner q' where
      i': "inner_tensors_of ?none ?q (fst (tensor_flatten ?q)) = Inr inner"
    and r: "tensor_unflatten_resolved opaque_value inner (snd (tensor_flatten ?q)) () () = Inr q'"
    and q': "rebuilt_metadata q' = map (map_prod id Component) (metadata ?q)"
      "rebuilt_source_field q' = source_field ?q"
      "shape q' = shape ?q" "strides q' = strides ?q" "storage_offset q' = storage_offset ?q"
      "device q' = device ?q" "layout q' = layout ?q" "requires_grad q' = requires_grad ?q"
      "dtype q' = dtype ?q" "rebuilt_nested_int_ref q' = None"
    by blast
  from i i' have inner: "inner = ?inner" by (simp add: mq)
  have "q' = \<lparr> shape = [4, 3], strides = [3, 1], storage_offset = 0, device = ''cpu'',
               layout = ''strided'', requires_grad = True, dtype = ''float32'',
               rebuilt_source_field = ''_lengths'',
               rebuilt_metadata = ?inner,
               rebuilt_nested_int_ref = None \<rparr>"
    using q' by (cases q') (simp add: roundtrip_proxy_def roundtrip_metadata_def)
  with r have 2: "tensor_unflatten_resolved opaque_value ?inner
        [(''source_field'', ''_lengths'')] () ()
       = Inr \<lparr> shape = [4, 3], strides = [3, 1], storage_offset = 0, device = ''cpu'',
               layout = ''strided'', requires_grad = True, dtype = ''float32'',
               rebuilt_source_field = ''_lengths'',
               rebuilt_metadata = ?inner,
               rebuilt_nested_int_ref = None \<rparr>"
    by (simp add: f inner)
  from i have 1: "inner_tensors_of ?none ?q [''_offsets'', ''_lengths''] = Inr ?inner"
    by (simp add: f mq)
  from d roundtrip_proxy_constructed n1 n2 f 1 2 show ?thesis by (intro conjI)
qed

subsection \<open>The registry\<close>

text \<open>
  C3. \<^verbatim>\<open>with set_func_registry(R): body\<close> runs the body in the state in which the
  variable refers to \<open>R\<close>, passes on what the body returns or raises, and leaves the
  variable referring to the registry it referred to on entry, on both exit paths; the
  dictionaries themselves are as the body leaves them. Nested: the inner body runs under
  the inner registry, when the inner scope exits the outer registry is active again, and
  when both have exited the registry from before the outer scope is.
\<close>

theorem set_func_registry_restores:
  "set_func_registry R body s =
     (case body (s\<lparr>func_registry := R\<rparr>) of
        (res, s') \<Rightarrow> (res, s'\<lparr>func_registry := func_registry s\<rparr>))
   \<and> func_registry (snd (set_func_registry R body s)) = func_registry s
   \<and> fst (set_func_registry R body s) = fst (body (s\<lparr>func_registry := R\<rparr>))
   \<and> heap (snd (set_func_registry R body s)) = heap (snd (body (s\<lparr>func_registry := R\<rparr>)))
   \<and> fst (set_func_registry R2 (set_func_registry R1 body) s)
       = fst (body (s\<lparr>func_registry := R1\<rparr>))
   \<and> func_registry (snd (set_func_registry R1 body (s\<lparr>func_registry := R2\<rparr>))) = R2
   \<and> func_registry (snd (set_func_registry R2 (set_func_registry R1 body) s)) = func_registry s"
  by (simp add: set_func_registry_def Let_def split: prod.splits sum.splits)

theorem set_func_registry_restores_witness:
  "set_func_registry 1 failing_body module_init
     = (Inl (HostError ''failed''),
        \<lparr> func_registry = default_registry,
          heap = (\<lambda>r. Map.empty)(1 := [''aten.add'' \<mapsto> 3]) \<rparr>)
   \<and> func_registry (snd (set_func_registry 2 (set_func_registry 1 failing_body) module_init))
       = default_registry
   \<and> fst (set_func_registry 2 (set_func_registry 1 failing_body) module_init)
       = Inl (HostError ''failed'')"
proof -
  have b: "failing_body (module_init\<lparr>func_registry := 1\<rparr>)
             = (Inl (HostError ''failed''),
                \<lparr> func_registry = 1, heap = (\<lambda>r. Map.empty)(1 := [''aten.add'' \<mapsto> 3]) \<rparr>)"
    by (simp add: failing_body_def register_cached_tensor_func_def wrapper_def module_init_def)
  have i: "func_registry (module_init :: (string, nat) module_state) = default_registry"
    by (simp add: module_init_def)
  note t = set_func_registry_restores [of 1 failing_body module_init 2 1]
  have 1: "set_func_registry 1 failing_body module_init
     = (Inl (HostError ''failed''),
        \<lparr> func_registry = default_registry,
          heap = (\<lambda>r. Map.empty)(1 := [''aten.add'' \<mapsto> 3]) \<rparr>)"
    using t [THEN conjunct1] unfolding b i by simp
  have 2: "func_registry (snd (set_func_registry 2 (set_func_registry 1 failing_body)
                     module_init)) = default_registry"
    using t unfolding i by blast
  have 3: "fst (set_func_registry 2 (set_func_registry 1 failing_body) module_init)
       = Inl (HostError ''failed'')"
    using t unfolding b by simp
  from 1 2 3 show ?thesis by (intro conjI)
qed

text \<open>
  C8, as stated, fails on the code: "\<open>register\<close> adds or replaces the mapping in the
  module-level default registry". Applied inside \<^verbatim>\<open>with set_func_registry(R)\<close>, the
  decorator writes into \<open>R\<close>, the dictionary the variable refers to at that moment; when
  the scope has exited, the default registry is active again and has no entry for the
  operation.
\<close>

theorem register_in_scope_counterexample:
  "heap (snd (set_func_registry 1
                (returning (register_cached_tensor_func ''aten.zeros'' (7::nat))
                   :: (string, nat) module_state \<Rightarrow> (exn + nat) \<times> (string, nat) module_state)
                module_init))
        default_registry ''aten.zeros'' = None
   \<and> func_registry (snd (set_func_registry 1
                (returning (register_cached_tensor_func ''aten.zeros'' (7::nat))
                   :: (string, nat) module_state \<Rightarrow> (exn + nat) \<times> (string, nat) module_state)
                module_init)) = default_registry
   \<and> heap (snd (set_func_registry 1
                (returning (register_cached_tensor_func ''aten.zeros'' (7::nat))
                   :: (string, nat) module_state \<Rightarrow> (exn + nat) \<times> (string, nat) module_state)
                module_init))
        1 ''aten.zeros'' = Some 7"
  by (simp add: set_func_registry_def returning_def register_cached_tensor_func_def wrapper_def
      module_init_def default_registry_def Let_def)

text \<open>
  C8, amended. The decorator adds or replaces the mapping for the operation in the
  registry that is active when it is applied to the function, and changes nothing else:
  that is the module-level default registry when no scope has installed another one, and
  otherwise the scope's registry, the default registry staying as it was. Registering the
  same operation again raises nothing and the last function wins: the state is the one
  that registering the last function alone gives.
\<close>

theorem register_writes_active_registry:
  "snd (register_cached_tensor_func aten_op func s) =
     s\<lparr>heap := (heap s)(func_registry s := (active_registry s)(aten_op \<mapsto> func))\<rparr>
   \<and> active_registry (snd (register_cached_tensor_func aten_op func s))
       = (active_registry s)(aten_op \<mapsto> func)
   \<and> func_registry (snd (register_cached_tensor_func aten_op func s)) = func_registry s
   \<and> (func_registry s = default_registry \<longrightarrow>
        heap (snd (register_cached_tensor_func aten_op func s)) default_registry
          = (heap s default_registry)(aten_op \<mapsto> func))
   \<and> (func_registry s \<noteq> default_registry \<longrightarrow>
        heap (snd (register_cached_tensor_func aten_op func s)) default_registry
          = heap s default_registry)
   \<and> snd (register_cached_tensor_func aten_op func'
             (snd (register_cached_tensor_func aten_op func s)))
       = snd (register_cached_tensor_func aten_op func' s)
   \<and> active_registry (snd (register_cached_tensor_func aten_op func'
             (snd (register_cached_tensor_func aten_op func s)))) aten_op = Some func'"
  by (simp add: register_cached_tensor_func_def wrapper_def active_registry_def)

theorem register_writes_active_registry_witness:
  "func_registry (module_init :: (string, nat) module_state) = default_registry
   \<and> heap (snd (register_cached_tensor_func ''aten.zeros'' (7::nat) module_init))
        default_registry = [''aten.zeros'' \<mapsto> 7]
   \<and> func_registry ((module_init :: (string, nat) module_state)\<lparr>func_registry := 1\<rparr>)
       \<noteq> default_registry
   \<and> heap (snd (register_cached_tensor_func ''aten.zeros'' (7::nat)
                  (module_init\<lparr>func_registry := 1\<rparr>))) default_registry = Map.empty
   \<and> active_registry (snd (register_cached_tensor_func ''aten.zeros'' (8::nat)
        (snd (register_cached_tensor_func ''aten.zeros'' 7 module_init)))) ''aten.zeros'' = Some 8"
proof -
  let ?s0 = "module_init :: (string, nat) module_state"
  let ?s1 = "?s0\<lparr>func_registry := 1\<rparr>"
  have h0: "func_registry ?s0 = default_registry" by (simp add: module_init_def)
  have h1: "func_registry ?s1 \<noteq> default_registry" by (simp add: default_registry_def)
  have e0: "heap ?s0 default_registry = Map.empty" by (simp add: module_init_def)
  have e1: "heap ?s1 default_registry = Map.empty" by (simp add: module_init_def)
  from register_writes_active_registry [of "''aten.zeros''" 7 ?s0 8] h0
  have a: "heap (snd (register_cached_tensor_func ''aten.zeros'' (7::nat) ?s0)) default_registry
             = (heap ?s0 default_registry)(''aten.zeros'' \<mapsto> 7)"
    and c: "active_registry (snd (register_cached_tensor_func ''aten.zeros'' (8::nat)
        (snd (register_cached_tensor_func ''aten.zeros'' 7 ?s0)))) ''aten.zeros'' = Some 8"
    by blast+
  from register_writes_active_registry [of "''aten.zeros''" 7 ?s1 8] h1
  have b: "heap (snd (register_cached_tensor_func ''aten.zeros'' (7::nat) ?s1)) default_registry
             = heap ?s1 default_registry"
    by blast
  from h0 a [unfolded e0] h1 b [unfolded e1] c show ?thesis by (intro conjI)
qed

text \<open>
  C9. The decorator made by \<^verbatim>\<open>register_cached_tensor_func(op)\<close> returns the function
  it is applied to, unchanged, and has recorded it under \<open>op\<close> in the active registry.
\<close>

theorem decorator_returns_function:
  "fst (register_cached_tensor_func aten_op func s) = func
   \<and> active_registry (snd (register_cached_tensor_func aten_op func s)) aten_op = Some func"
  by (simp add: register_cached_tensor_func_def wrapper_def active_registry_def)

end
